theory Spec2Isabelle
  imports Main
begin

section \<open>JavaScript values\<close>

text \<open>
  The parent component of \<^verbatim>\<open>src/component/parent/index.js\<close> works on untyped
  JavaScript values. The model keeps the distinctions the code tests for:
  \<^verbatim>\<open>typeof\<close>, truthiness, \<^verbatim>\<open>null\<close> against \<^verbatim>\<open>undefined\<close>, and the empty string.
  Numbers are the integers and \<^verbatim>\<open>NaN\<close> (no fractions, no infinities). An object value
  is a plain object holding JSON data; a function value is a user function, the
  library's \<^verbatim>\<open>noop\<close>, or the result of one of the wrappers the code applies
  (\<^verbatim>\<open>denodeify\<close>, \<^verbatim>\<open>once\<close>, \<^verbatim>\<open>memoize\<close>, \<^verbatim>\<open>Function.prototype.bind\<close>); every wrapper
  call yields a new function, so a wrapped function is never equal to the function
  it wraps.
\<close>

datatype json =
    JNull
  | JBool bool
  | JNumber int
  | JString string
  | JArray "json list"
  | JObject "(string \<times> json) list"

datatype jsval =
    VUndefined
  | VNull
  | VBool bool
  | VNum int
  | VNaN
  | VStr string
  | VObj "(string \<times> json) list"
  | VFun fn
and fn =
    UserFn nat
  | Noop
  | Denodeify jsval
  | Once jsval
  | Memoize jsval
  | Bind fn

text \<open>A JavaScript object used as a dictionary: its own keys in insertion order.\<close>

type_synonym jsobject = "(string \<times> jsval) list"

text \<open>\<^verbatim>\<open>Boolean(v)\<close>, \<^verbatim>\<open>!v\<close>, \<^verbatim>\<open>v || d\<close>: the falsy values are \<^verbatim>\<open>undefined\<close>, \<^verbatim>\<open>null\<close>,
  \<^verbatim>\<open>false\<close>, \<^verbatim>\<open>0\<close>, \<^verbatim>\<open>NaN\<close> and the empty string.\<close>

fun truthy :: "jsval \<Rightarrow> bool" where
  "truthy VUndefined = False"
| "truthy VNull = False"
| "truthy (VBool b) = b"
| "truthy (VNum n) = (n \<noteq> 0)"
| "truthy VNaN = False"
| "truthy (VStr s) = (s \<noteq> [])"
| "truthy (VObj obj) = True"
| "truthy (VFun f) = True"

text \<open>\<^verbatim>\<open>obj[key]\<close> reads \<^verbatim>\<open>undefined\<close> for a key the object does not have.\<close>

definition getprop :: "jsobject \<Rightarrow> string \<Rightarrow> jsval" where
  "getprop obj key = (case map_of obj key of None \<Rightarrow> VUndefined | Some v \<Rightarrow> v)"

definition hasOwnProperty :: "jsobject \<Rightarrow> string \<Rightarrow> bool" where
  "hasOwnProperty obj key = (map_of obj key \<noteq> None)"

text \<open>\<^verbatim>\<open>obj[key] = v\<close>: an existing key keeps its place, a new key goes last.\<close>

fun setprop :: "jsobject \<Rightarrow> string \<Rightarrow> jsval \<Rightarrow> jsobject" where
  "setprop [] key v = [(key, v)]"
| "setprop ((k, w) # rest) key v =
     (if k = key then (k, v) # rest else (k, w) # setprop rest key v)"

text \<open>\<^verbatim>\<open>Object.keys(obj)\<close>.\<close>

definition Object_keys :: "('k \<times> 'v) list \<Rightarrow> 'k list" where
  "Object_keys obj = map fst obj"

subsection \<open>Numbers and strings\<close>

text \<open>\<^verbatim>\<open>Number.prototype.toString()\<close> on an integer: its decimal digits, with a minus
  sign when negative.\<close>

definition digit_char :: "nat \<Rightarrow> char" where
  "digit_char d = ''0123456789'' ! (d mod 10)"

function string_of_nat :: "nat \<Rightarrow> string" where
  "string_of_nat n =
     (if n < 10 then [digit_char n] else string_of_nat (n div 10) @ [digit_char (n mod 10)])"
  by pat_completeness auto
termination
  by (relation "measure (\<lambda>n. n)") auto

declare string_of_nat.simps [simp del]

definition number_toString :: "int \<Rightarrow> string" where
  "number_toString n =
     (if n < 0 then CHR ''-'' # string_of_nat (nat (- n)) else string_of_nat (nat n))"

text \<open>\<^verbatim>\<open>parseInt(s, 10)\<close> on a string: leading white space is skipped, then an optional
  sign and the longest run of decimal digits are read; with no digit the result is
  \<^verbatim>\<open>NaN\<close>.\<close>

definition is_digit :: "char \<Rightarrow> bool" where
  "is_digit c = (48 \<le> (of_char c :: nat) \<and> (of_char c :: nat) \<le> 57)"

definition is_space :: "char \<Rightarrow> bool" where
  "is_space c = ((of_char c :: nat) \<in> {9, 10, 11, 12, 13, 32})"

definition digits_value :: "string \<Rightarrow> int" where
  "digits_value ds = foldl (\<lambda>acc c. 10 * acc + (int (of_char c) - 48)) 0 ds"

definition parseInt_digits :: "string \<Rightarrow> int option" where
  "parseInt_digits s =
     (let ds = takeWhile is_digit s in if ds = [] then None else Some (digits_value ds))"

definition parseInt_string :: "string \<Rightarrow> jsval" where
  "parseInt_string s =
     (case dropWhile is_space s of
        [] \<Rightarrow> VNaN
      | c # rest \<Rightarrow>
          if c = CHR ''-'' then
            (case parseInt_digits rest of None \<Rightarrow> VNaN | Some n \<Rightarrow> VNum (- n))
          else if c = CHR ''+'' then
            (case parseInt_digits rest of None \<Rightarrow> VNaN | Some n \<Rightarrow> VNum n)
          else
            (case parseInt_digits (c # rest) of None \<Rightarrow> VNaN | Some n \<Rightarrow> VNum n))"

text \<open>\<^verbatim>\<open>parseInt(v, 10)\<close> converts its argument to a string first. An integer reads
  back as itself; \<^verbatim>\<open>"true"\<close>, \<^verbatim>\<open>"undefined"\<close>, \<^verbatim>\<open>"null"\<close>, \<^verbatim>\<open>"NaN"\<close>,
  \<^verbatim>\<open>"[object Object]"\<close> and the source text of a function do not start with a digit.\<close>

fun parseInt :: "jsval \<Rightarrow> jsval" where
  "parseInt (VNum n) = VNum n"
| "parseInt (VStr s) = parseInt_string s"
| "parseInt VUndefined = VNaN"
| "parseInt VNull = VNaN"
| "parseInt (VBool b) = VNaN"
| "parseInt VNaN = VNaN"
| "parseInt (VObj obj) = VNaN"
| "parseInt (VFun f) = VNaN"

subsection \<open>\<^verbatim>\<open>JSON.stringify\<close>\<close>

text \<open>\<^verbatim>\<open>JSON.stringify\<close> without indentation: no white space, members in key order,
  strings in double quotes with the quote, the backslash and the control characters
  escaped.\<close>

definition hex_char :: "nat \<Rightarrow> char" where
  "hex_char d = ''0123456789abcdef'' ! (d mod 16)"

definition json_escape_char :: "char \<Rightarrow> string" where
  "json_escape_char c =
     (if c = CHR ''\"'' then [CHR 0x5C, CHR ''\"'']
      else if c = CHR 0x5C then [CHR 0x5C, CHR 0x5C]
      else if c = CHR 0x08 then [CHR 0x5C, CHR ''b'']
      else if c = CHR 0x09 then [CHR 0x5C, CHR ''t'']
      else if c = CHR 0x0A then [CHR 0x5C, CHR ''n'']
      else if c = CHR 0x0C then [CHR 0x5C, CHR ''f'']
      else if c = CHR 0x0D then [CHR 0x5C, CHR ''r'']
      else if (of_char c :: nat) < 32 then
        [CHR 0x5C, CHR ''u'', CHR ''0'', CHR ''0'',
         hex_char ((of_char c :: nat) div 16), hex_char ((of_char c :: nat) mod 16)]
      else [c])"

definition json_quote :: "string \<Rightarrow> string" where
  "json_quote s = CHR ''\"'' # concat (map json_escape_char s) @ [CHR ''\"'']"

fun join :: "string \<Rightarrow> string list \<Rightarrow> string" where
  "join sep [] = []"
| "join sep [x] = x"
| "join sep (x # y # rest) = x @ sep @ join sep (y # rest)"

fun JSON_stringify :: "json \<Rightarrow> string" where
  "JSON_stringify JNull = ''null''"
| "JSON_stringify (JBool b) = (if b then ''true'' else ''false'')"
| "JSON_stringify (JNumber n) = number_toString n"
| "JSON_stringify (JString s) = json_quote s"
| "JSON_stringify (JArray xs) = ''['' @ join '','' (map JSON_stringify xs) @ '']''"
| "JSON_stringify (JObject kvs) =
     ''{'' @ join '','' (map (\<lambda>(k, v). json_quote k @ '':'' @ JSON_stringify v) kvs) @ ''}''"

section \<open>Component definitions and errors\<close>

text \<open>The rendering contexts (\<^verbatim>\<open>CONTEXT_TYPES\<close>).\<close>

datatype context_type = Iframe | Popup | Lightbox

text \<open>The declared type of a prop (\<^verbatim>\<open>prop.type\<close>).\<close>

datatype prop_type = TBoolean | TString | TNumber | TObject | TFunction

text \<open>One entry of \<^verbatim>\<open>component.props\<close>: the type, the default \<^verbatim>\<open>def\<close>
  (\<^verbatim>\<open>undefined\<close> when there is none) and the flags \<^verbatim>\<open>normalizeProp\<close> reads.\<close>

record prop_decl =
  prop_type :: prop_type
  prop_def :: jsval
  prop_noop :: bool
  prop_denodeify :: bool
  prop_once :: bool
  prop_memoize :: bool

text \<open>The component definition. \<^verbatim>\<open>ident\<close> stands for the identity of the definition
  object, which the constructor compares with \<^verbatim>\<open>===\<close>.\<close>

record component =
  ident :: nat
  tag :: string
  component_url :: "string option"
  envUrls :: "(string \<times> string) list"
  contexts :: "context_type list"
  defaultContext :: "context_type option"
  component_props :: "(string \<times> prop_decl) list"
  singleton :: bool

text \<open>Every \<^verbatim>\<open>throw\<close> of the file is a value: one constructor for each
  \<^verbatim>\<open>new Error(...)\<close>, carrying what the message interpolates, \<open>TypeError\<close> for the
  run-time errors of the language (calling or reading a member of a value that has
  none), and \<open>ValidationError\<close> for \<^verbatim>\<open>validateProps\<close>.\<close>

datatype error =
    SingletonError string
  | AlreadyRendered string
  | InvalidContext context_type
  | IframeNotAllowed string
  | NoContextAvailable string
  | TimedOut string jsval jsval
  | RemoteError string
  | ValidationError string
  | TypeError

text \<open>Modelled from the spec: the error kinds of the error handling design, which the
  code does not name (it throws plain \<^verbatim>\<open>Error\<close> objects). A ConfigurationError is a
  singleton violation, a disallowed context or a missing render context.\<close>

datatype error_kind =
    ConfigurationError | ProtocolTimeoutError | RemoteReportedError
  | PropValidationError | RuntimeError

fun kind_of :: "error \<Rightarrow> error_kind" where
  "kind_of (SingletonError t) = ConfigurationError"
| "kind_of (AlreadyRendered t) = ConfigurationError"
| "kind_of (InvalidContext c) = ConfigurationError"
| "kind_of (IframeNotAllowed t) = ConfigurationError"
| "kind_of (NoContextAvailable t) = ConfigurationError"
| "kind_of (TimedOut t u ms) = ProtocolTimeoutError"
| "kind_of (RemoteError m) = RemoteReportedError"
| "kind_of (ValidationError k) = PropValidationError"
| "kind_of TypeError = RuntimeError"

text \<open>What the file takes from outside: \<^verbatim>\<open>urlEncode\<close> and \<^verbatim>\<open>stringifyWithFunctions\<close>
  of the library, and the result of calling a default that is a function
  (\<^verbatim>\<open>prop.def()\<close>).\<close>

record externals =
  urlEncode :: "string \<Rightarrow> string"
  stringifyWithFunctions :: "jsobject \<Rightarrow> string"
  call_def :: "fn \<Rightarrow> jsval"

section \<open>The props pipeline\<close>

subsection \<open>\<^verbatim>\<open>normalizeProp\<close> and \<^verbatim>\<open>normalizeProps\<close>\<close>

text \<open>\<^verbatim>\<open>props.hasOwnProperty(key) && value !== null && value !== undefined && value !== ''\<close>\<close>

definition hasProp :: "jsobject \<Rightarrow> string \<Rightarrow> bool" where
  "hasProp props key =
     (hasOwnProperty props key \<and> getprop props key \<noteq> VNull
      \<and> getprop props key \<noteq> VUndefined \<and> getprop props key \<noteq> VStr [])"

text \<open>The default that replaces a missing value: a default that is a function is
  called, unless the prop itself is of function type.\<close>

definition default_value :: "externals \<Rightarrow> prop_decl \<Rightarrow> jsval" where
  "default_value ext p =
     (case prop_def p of
        VFun f \<Rightarrow> if prop_type p \<noteq> TFunction then call_def ext f else VFun f
      | d \<Rightarrow> d)"

text \<open>The function branch for a truthy value: \<^verbatim>\<open>denodeify\<close>, \<^verbatim>\<open>once\<close>, \<^verbatim>\<open>memoize\<close> as
  flagged, in this order, then \<^verbatim>\<open>value.bind(this)\<close>, which throws a TypeError when
  the value reached is not a function.\<close>

definition wrap_function :: "prop_decl \<Rightarrow> jsval \<Rightarrow> error + jsval" where
  "wrap_function p v =
     (let v1 = (if prop_denodeify p then VFun (Denodeify v) else v);
          v2 = (if prop_once p then VFun (Once v1) else v1);
          v3 = (if prop_memoize p then VFun (Memoize v2) else v2)
      in case v3 of VFun f \<Rightarrow> Inr (VFun (Bind f)) | _ \<Rightarrow> Inl TypeError)"

text \<open>\<^verbatim>\<open>normalizeProp(props, key)\<close>. Reading \<^verbatim>\<open>prop.def\<close> of an undeclared key throws
  a TypeError.\<close>

definition normalizeProp ::
  "externals \<Rightarrow> component \<Rightarrow> jsobject \<Rightarrow> string \<Rightarrow> error + jsval" where
  "normalizeProp ext cmpt props key =
     (case map_of (component_props cmpt) key of
        None \<Rightarrow> Inl TypeError
      | Some p \<Rightarrow>
          (let v = (if \<not> hasProp props key \<and> truthy (prop_def p)
                    then default_value ext p else getprop props key)
           in case prop_type p of
                TBoolean \<Rightarrow> Inr (VBool (truthy v))
              | TFunction \<Rightarrow>
                  if \<not> truthy v then Inr (if prop_noop p then VFun Noop else v)
                  else wrap_function p v
              | TString \<Rightarrow> Inr (if truthy v then v else VStr [])
              | TObject \<Rightarrow> Inr v
              | TNumber \<Rightarrow> Inr (parseInt (if truthy v then v else VNum 0))))"

text \<open>The loop of \<^verbatim>\<open>normalizeProps\<close>: \<^verbatim>\<open>result[key] = this.normalizeProp(props, key)\<close>
  for every declared key, in order; an exception leaves the loop.\<close>

fun normalize_loop ::
  "externals \<Rightarrow> component \<Rightarrow> jsobject \<Rightarrow> string list \<Rightarrow> jsobject \<Rightarrow> error + jsobject" where
  "normalize_loop ext cmpt props [] result = Inr result"
| "normalize_loop ext cmpt props (key # keys) result =
     (case normalizeProp ext cmpt props key of
        Inl e \<Rightarrow> Inl e
      | Inr v \<Rightarrow> normalize_loop ext cmpt props keys (setprop result key v))"

text \<open>\<^verbatim>\<open>normalizeProps(props)\<close>; an absent argument (\<open>None\<close>) is replaced by the
  empty object.\<close>

definition normalizeProps ::
  "externals \<Rightarrow> component \<Rightarrow> jsobject option \<Rightarrow> error + jsobject" where
  "normalizeProps ext cmpt props =
     normalize_loop ext cmpt (case props of None \<Rightarrow> [] | Some ps \<Rightarrow> ps)
       (Object_keys (component_props cmpt)) []"

subsection \<open>\<^verbatim>\<open>propsToQuery\<close> and \<^verbatim>\<open>buildUrl\<close>\<close>

text \<open>The callback of the \<^verbatim>\<open>map\<close> in \<^verbatim>\<open>propsToQuery\<close>: the empty string for a falsy
  value, \<^verbatim>\<open>undefined\<close> (\<open>None\<close>) for a function, and \<^verbatim>\<open>key=value\<close>, both sides
  through \<^verbatim>\<open>urlEncode\<close>, otherwise. The last case is never reached: a truthy value is
  a boolean, a string, a function, an object or a number.\<close>

definition query_entry :: "externals \<Rightarrow> jsobject \<Rightarrow> string \<Rightarrow> string option" where
  "query_entry ext props key =
     (let v = getprop props key;
          entry = (\<lambda>result. Some (urlEncode ext key @ ''='' @ urlEncode ext result))
      in if \<not> truthy v then Some []
         else case v of
                VBool b \<Rightarrow> entry ''1''
              | VStr s \<Rightarrow> entry s
              | VFun f \<Rightarrow> None
              | VObj obj \<Rightarrow> entry (JSON_stringify (JObject obj))
              | VNum n \<Rightarrow> entry (number_toString n)
              | _ \<Rightarrow> Some [])"

text \<open>\<^verbatim>\<open>.filter(Boolean)\<close> drops \<^verbatim>\<open>undefined\<close> and the empty string.\<close>

definition filter_Boolean :: "string option list \<Rightarrow> string list" where
  "filter_Boolean rs = concat (map (\<lambda>r. case r of None \<Rightarrow> [] | Some s \<Rightarrow> if s = [] then [] else [s]) rs)"

definition propsToQuery :: "externals \<Rightarrow> jsobject \<Rightarrow> string" where
  "propsToQuery ext props =
     join ''&'' (filter_Boolean (map (query_entry ext props) (Object_keys props)))"

text \<open>\<^verbatim>\<open>this.component.envUrls[this.props.env]\<close>: the key is the prop converted to a
  string. (The source text of a function is taken not to name an environment.)\<close>

definition envUrl :: "component \<Rightarrow> jsval \<Rightarrow> jsval" where
  "envUrl cmpt v =
     (let look = (\<lambda>k. case map_of (envUrls cmpt) k of None \<Rightarrow> VUndefined | Some u \<Rightarrow> VStr u)
      in case v of
           VStr s \<Rightarrow> look s
         | VNum n \<Rightarrow> look (number_toString n)
         | VBool b \<Rightarrow> look (if b then ''true'' else ''false'')
         | VObj obj \<Rightarrow> look ''[object Object]''
         | VUndefined \<Rightarrow> look ''undefined''
         | VNull \<Rightarrow> look ''null''
         | VNaN \<Rightarrow> look ''NaN''
         | VFun f \<Rightarrow> VUndefined)"

text \<open>\<^verbatim>\<open>buildUrl()\<close>, on the props of the instance. \<^verbatim>\<open>url.indexOf('?')\<close> throws a
  TypeError when the url chosen is not a string.\<close>

definition buildUrl :: "externals \<Rightarrow> component \<Rightarrow> jsobject \<Rightarrow> error + jsval" where
  "buildUrl ext cmpt props =
     (let url = (if truthy (getprop props ''url'') then getprop props ''url''
                 else if truthy (getprop props ''env'') then envUrl cmpt (getprop props ''env'')
                 else (case component_url cmpt of None \<Rightarrow> VUndefined | Some u \<Rightarrow> VStr u));
          queryString = propsToQuery ext props
      in if queryString \<noteq> [] then
           (case url of
              VStr u \<Rightarrow> Inr (VStr (u @ (if CHR ''?'' \<notin> set u then ''?'' else ''&'') @ queryString))
            | _ \<Rightarrow> Inl TypeError)
         else Inr url)"

subsection \<open>\<^verbatim>\<open>validateProps\<close>\<close>

text \<open>Modelled from the spec: \<^verbatim>\<open>validateProps\<close> lives in \<^verbatim>\<open>./validate\<close>, which is not
  among the sources. It fails with a ValidationError naming the offending key if an
  unknown or mistyped prop is supplied. A value that is \<^verbatim>\<open>null\<close>, \<^verbatim>\<open>undefined\<close> or the
  empty string counts as not supplied.\<close>

fun has_type :: "prop_type \<Rightarrow> jsval \<Rightarrow> bool" where
  "has_type TBoolean (VBool b) = True"
| "has_type TString (VStr s) = True"
| "has_type TNumber (VNum n) = True"
| "has_type TObject (VObj obj) = True"
| "has_type TFunction (VFun f) = True"
| "has_type t v = False"

definition supplied :: "jsval \<Rightarrow> bool" where
  "supplied v = (v \<noteq> VNull \<and> v \<noteq> VUndefined \<and> v \<noteq> VStr [])"

definition prop_ok :: "component \<Rightarrow> string \<times> jsval \<Rightarrow> bool" where
  "prop_ok cmpt kv =
     (case map_of (component_props cmpt) (fst kv) of
        None \<Rightarrow> False
      | Some p \<Rightarrow> \<not> supplied (snd kv) \<or> has_type (prop_type p) (snd kv))"

definition validateProps :: "component \<Rightarrow> jsobject \<Rightarrow> error + unit" where
  "validateProps cmpt props =
     (case filter (\<lambda>kv. \<not> prop_ok cmpt kv) props of
        [] \<Rightarrow> Inr ()
      | kv # rest \<Rightarrow> Inl (ValidationError (fst kv)))"

section \<open>Instances and the page\<close>

subsection \<open>State\<close>

text \<open>The init future \<^verbatim>\<open>this.onInit\<close> is a \<^verbatim>\<open>SyncPromise\<close> of the
  \<^verbatim>\<open>sync-browser-mocks\<close> package: it settles at most once (\<^verbatim>\<open>resolve\<close> and \<^verbatim>\<open>reject\<close>
  on a settled promise do nothing and return it), and a handler runs synchronously,
  as soon as it is attached to a settled promise or the promise settles. The only
  handlers that wait on \<^verbatim>\<open>onInit\<close> are the continuations of \<^verbatim>\<open>updateProps\<close>, each with
  the props it was called with.\<close>

datatype promise_state = Pending | Resolved | Rejected error

record promise =
  settled :: promise_state
  handlers :: "jsobject list"

text \<open>The fields \<^verbatim>\<open>setForCleanup\<close> sets, and the cleanup tasks an instance registers:
  one constructor for each closure passed to \<^verbatim>\<open>registerForCleanup\<close>.\<close>

datatype field = FContext | FWindow

datatype cleanup_task =
    RemoveActive
  | DeleteField field
  | CancelWatchers nat nat
  | RemoveOverlay
  | CancelMessageListener nat
  | CloseSurface nat

text \<open>The messages of \<^verbatim>\<open>POST_MESSAGE\<close> that this side sends, and what the page
  observes of an instance: the callbacks it calls (the prop called, the function
  found there, the error passed), the messages it sends to a window, the warnings it
  logs, the urls it loads, the templates it writes into a new window, and the
  cleanup tasks it runs.\<close>

datatype message = PROPS jsobject | CLOSE

datatype event =
    Callback string fn "error option"
  | Sent "nat option" message
  | Warned error
  | LoadedUrl "nat option" jsval
  | ComponentTemplate "nat option"
  | CleanedUp nat cleanup_task

datatype listener_kind = CloseWatcher | UnloadWatcher | MessageListener

datatype dom_kind = ParentStyle | OverlayElement | OverlayStyle

text \<open>One instance of \<^verbatim>\<open>ParentComponent\<close>. \<^verbatim>\<open>uid\<close> identifies the object (and stands
  for \<^verbatim>\<open>this.id\<close>); windows, listeners and DOM nodes are handles. The child window name,
  the screen size and \<^verbatim>\<open>parentWindow\<close> are used by \<^verbatim>\<open>renderToParent\<close> and the drivers
  only, and left out.\<close>

record parent_component =
  component :: component
  uid :: nat
  props :: jsobject
  url :: jsval
  window :: "nat option"
  render_context :: "context_type option"
  overlay :: "nat option"
  overlayStyle :: "nat option"
  cleanupTasks :: "cleanup_task list"
  onInit :: promise

text \<open>The page around the instances: the module's \<^verbatim>\<open>activeComponents\<close> (each entry an
  instance and the definition it was made from), the live listeners, the nodes added
  to \<^verbatim>\<open>document.body\<close>, the open surfaces, the timers set and not yet run (instance
  and delay), and the trace of events.\<close>

record world =
  activeComponents :: "(nat \<times> nat) list"
  next_id :: nat
  listeners :: "(nat \<times> listener_kind \<times> nat) list"
  body_nodes :: "(nat \<times> dom_kind) list"
  surfaces :: "(nat \<times> context_type) list"
  timers :: "(nat \<times> jsval) list"
  trace :: "event list"

text \<open>A method that may throw returns the exception, if any, with the instance and
  the page as they were when it was thrown.\<close>

type_synonym step = "parent_component \<Rightarrow> world \<Rightarrow> error option \<times> parent_component \<times> world"

definition and_then :: "error option \<times> parent_component \<times> world \<Rightarrow> step \<Rightarrow>
    error option \<times> parent_component \<times> world" where
  "and_then r f = (case r of (Some e, inst, w) \<Rightarrow> (Some e, inst, w) | (None, inst, w) \<Rightarrow> f inst w)"

text \<open>An entry of \<^verbatim>\<open>RENDER_DRIVERS\<close>: the optional \<^verbatim>\<open>render\<close> hook, \<^verbatim>\<open>open\<close>,
  \<^verbatim>\<open>loadUrl\<close> and the \<^verbatim>\<open>overlay\<close> flag. The methods of this file take the table as a
  parameter.\<close>

record driver =
  drv_render :: "(nat option \<Rightarrow> step) option"
  drv_open :: "nat option \<Rightarrow> step"
  drv_loadUrl :: "jsval \<Rightarrow> step"
  drv_overlay :: bool

text \<open>The options of the constructor: \<^verbatim>\<open>options.props\<close>, possibly absent.\<close>

record options =
  opt_props :: "jsobject option"

definition emit :: "event \<Rightarrow> world \<Rightarrow> world" where
  "emit e w = w\<lparr>trace := trace w @ [e]\<rparr>"

definition fresh :: "world \<Rightarrow> nat \<times> world" where
  "fresh w = (next_id w, w\<lparr>next_id := Suc (next_id w)\<rparr>)"

subsection \<open>The base component\<close>

text \<open>Modelled from the spec: \<^verbatim>\<open>registerForCleanup\<close>, \<^verbatim>\<open>setForCleanup\<close>, \<^verbatim>\<open>cleanup\<close> and
  \<^verbatim>\<open>listen\<close> are methods of \<^verbatim>\<open>BaseComponent\<close> (\<^verbatim>\<open>../base\<close>), which is not among the
  sources. The resource registry is a per-instance ordered list of cleanup actions;
  \<^verbatim>\<open>setForCleanup\<close> records a value in a field for cleanup; \<^verbatim>\<open>cleanup\<close> runs every
  registered cleanup action in registration order, then clears the list, so that a
  second call finds nothing to run.\<close>

definition registerForCleanup :: "cleanup_task \<Rightarrow> parent_component \<Rightarrow> parent_component" where
  "registerForCleanup task inst = inst\<lparr>cleanupTasks := cleanupTasks inst @ [task]\<rparr>"

definition setForCleanup_context :: "context_type \<Rightarrow> parent_component \<Rightarrow> parent_component" where
  "setForCleanup_context c inst =
     registerForCleanup (DeleteField FContext) (inst\<lparr>render_context := Some c\<rparr>)"

definition setForCleanup_window :: "nat \<Rightarrow> parent_component \<Rightarrow> parent_component" where
  "setForCleanup_window h inst =
     registerForCleanup (DeleteField FWindow) (inst\<lparr>window := Some h\<rparr>)"

text \<open>\<^verbatim>\<open>activeComponents.splice(activeComponents.indexOf(this), 1)\<close>: \<^verbatim>\<open>indexOf\<close> is -1
  for an instance that is not in the list, and \<^verbatim>\<open>splice(-1, 1)\<close> removes the last
  element.\<close>

fun remove_first :: "nat \<Rightarrow> (nat \<times> nat) list \<Rightarrow> (nat \<times> nat) list" where
  "remove_first i [] = []"
| "remove_first i (x # xs) = (if fst x = i then xs else x # remove_first i xs)"

definition splice_indexOf :: "nat \<Rightarrow> (nat \<times> nat) list \<Rightarrow> (nat \<times> nat) list" where
  "splice_indexOf i xs = (if i \<in> fst ` set xs then remove_first i xs else butlast xs)"

text \<open>What each registered closure does when it runs.\<close>

fun run_task :: "cleanup_task \<Rightarrow> parent_component \<Rightarrow> world \<Rightarrow> parent_component \<times> world" where
  "run_task RemoveActive inst w =
     (inst, w\<lparr>activeComponents := splice_indexOf (uid inst) (activeComponents w)\<rparr>)"
| "run_task (DeleteField FContext) inst w = (inst\<lparr>render_context := None\<rparr>, w)"
| "run_task (DeleteField FWindow) inst w = (inst\<lparr>window := None\<rparr>, w)"
| "run_task (CancelWatchers a b) inst w =
     (inst, w\<lparr>listeners := filter (\<lambda>l. fst l \<noteq> a \<and> fst l \<noteq> b) (listeners w)\<rparr>)"
| "run_task RemoveOverlay inst w =
     (inst, w\<lparr>body_nodes := filter (\<lambda>n. Some (fst n) \<noteq> overlay inst \<and> Some (fst n) \<noteq> overlayStyle inst)
                        (body_nodes w)\<rparr>)"
| "run_task (CancelMessageListener a) inst w =
     (inst, w\<lparr>listeners := filter (\<lambda>l. fst l \<noteq> a) (listeners w)\<rparr>)"
| "run_task (CloseSurface h) inst w =
     (inst, w\<lparr>surfaces := filter (\<lambda>s. fst s \<noteq> h) (surfaces w)\<rparr>)"

fun run_tasks :: "cleanup_task list \<Rightarrow> parent_component \<Rightarrow> world \<Rightarrow> parent_component \<times> world" where
  "run_tasks [] inst w = (inst, w)"
| "run_tasks (t # ts) inst w =
     (case run_task t inst w of (inst', w') \<Rightarrow> run_tasks ts inst' (emit (CleanedUp (uid inst) t) w'))"

definition cleanup :: "parent_component \<Rightarrow> world \<Rightarrow> parent_component \<times> world" where
  "cleanup inst w =
     (case run_tasks (cleanupTasks inst) inst w of
        (inst', w') \<Rightarrow> (inst'\<lparr>cleanupTasks := []\<rparr>, w'))"

text \<open>\<^verbatim>\<open>listen(win)\<close> starts the message listener bound to the surface; the listener is
  a resource of the instance, released with the others.\<close>

definition listen :: "parent_component \<Rightarrow> world \<Rightarrow> parent_component \<times> world" where
  "listen inst w =
     (case fresh w of
        (a, w') \<Rightarrow>
          (registerForCleanup (CancelMessageListener a) inst,
           w'\<lparr>listeners := listeners w' @ [(a, MessageListener, uid inst)]\<rparr>))"

text \<open>Modelled from the spec: \<^verbatim>\<open>extend\<close> of the library copies the own properties of
  the source onto the target, so that the new props are merged over the existing
  ones.\<close>

definition extend :: "jsobject \<Rightarrow> jsobject \<Rightarrow> jsobject" where
  "extend obj source = foldl (\<lambda>acc kv. setprop acc (fst kv) (snd kv)) obj source"

subsection \<open>Render drivers\<close>

text \<open>Modelled from the spec: the table \<^verbatim>\<open>RENDER_DRIVERS\<close> of \<^verbatim>\<open>./drivers\<close>, which is not
  among the sources. \<^verbatim>\<open>open\<close> creates the surface and stores a window handle;
  \<^verbatim>\<open>loadUrl\<close> injects the url; \<^verbatim>\<open>overlay\<close> says whether the context requires a
  blocking background overlay (the popup and the lightbox do). Every acquisition is
  paired with one release action.\<close>

definition driver_open :: "context_type \<Rightarrow> nat option \<Rightarrow> step" where
  "driver_open c element inst w =
     (case fresh w of
        (h, w') \<Rightarrow>
          (None, registerForCleanup (CloseSurface h) (setForCleanup_window h inst),
           w'\<lparr>surfaces := surfaces w' @ [(h, c)]\<rparr>))"

definition driver_loadUrl :: "jsval \<Rightarrow> step" where
  "driver_loadUrl u inst w = (None, inst, emit (LoadedUrl (window inst) u) w)"

definition RENDER_DRIVERS :: "context_type \<Rightarrow> driver" where
  "RENDER_DRIVERS c =
     \<lparr>drv_render = None, drv_open = driver_open c, drv_loadUrl = driver_loadUrl,
      drv_overlay = (c \<noteq> Iframe)\<rparr>"

section \<open>The parent component\<close>

subsection \<open>Setting and updating props\<close>

text \<open>\<^verbatim>\<open>setProps(props)\<close>: validate, normalize, rebuild the url. An exception of
  \<^verbatim>\<open>buildUrl\<close> comes after \<^verbatim>\<open>this.props\<close> is assigned.\<close>

definition setProps ::
  "externals \<Rightarrow> jsobject \<Rightarrow> parent_component \<Rightarrow> error option \<times> parent_component" where
  "setProps ext ps inst =
     (case validateProps (component inst) ps of
        Inl e \<Rightarrow> (Some e, inst)
      | Inr u \<Rightarrow>
          (case normalizeProps ext (component inst) (Some ps) of
             Inl e \<Rightarrow> (Some e, inst)
           | Inr np \<Rightarrow>
               (case buildUrl ext (component inst) np of
                  Inl e \<Rightarrow> (Some e, inst\<lparr>props := np\<rparr>)
                | Inr u \<Rightarrow> (None, inst\<lparr>props := np, url := u\<rparr>))))"

text \<open>The continuation of \<^verbatim>\<open>updateProps\<close>, run once \<^verbatim>\<open>onInit\<close> is resolved. An exception
  of \<^verbatim>\<open>setProps\<close> rejects the promise \<^verbatim>\<open>updateProps\<close> returned and ends the
  continuation.\<close>

definition updateProps_then ::
  "externals \<Rightarrow> jsobject \<Rightarrow> parent_component \<Rightarrow> world \<Rightarrow> parent_component \<times> world" where
  "updateProps_then ext ps inst w =
     (let oldProps = stringifyWithFunctions ext (props inst);
          newProps = extend (extend [] (props inst)) ps
      in case setProps ext newProps inst of
           (Some e, inst') \<Rightarrow> (inst', w)
         | (None, inst') \<Rightarrow>
             if window inst' \<noteq> None \<and> oldProps \<noteq> stringifyWithFunctions ext (props inst')
             then (inst', emit (Sent (window inst') (PROPS (props inst'))) w)
             else (inst', w))"

text \<open>\<^verbatim>\<open>updateProps(props)\<close>: \<^verbatim>\<open>validateProps\<close> throws at once; the rest waits for
  \<^verbatim>\<open>onInit\<close>: it runs now when the promise is resolved, is queued when it is pending,
  and never runs when it is rejected.\<close>

definition updateProps :: "externals \<Rightarrow> jsobject \<Rightarrow> step" where
  "updateProps ext ps inst w =
     (case validateProps (component inst) ps of
        Inl e \<Rightarrow> (Some e, inst, w)
      | Inr u \<Rightarrow>
          (case settled (onInit inst) of
             Pending \<Rightarrow>
               (None, inst\<lparr>onInit := (onInit inst)\<lparr>handlers := handlers (onInit inst) @ [ps]\<rparr>\<rparr>, w)
           | Resolved \<Rightarrow> (case updateProps_then ext ps inst w of (inst', w') \<Rightarrow> (None, inst', w'))
           | Rejected e \<Rightarrow> (None, inst, w)))"

text \<open>\<^verbatim>\<open>this.onInit.resolve()\<close> and \<^verbatim>\<open>this.onInit.reject(error)\<close>. Resolving a pending
  promise runs the queued continuations in order; rejecting it drops them (they have
  no error handler). A settled promise is left as it is.\<close>

fun run_handlers ::
  "externals \<Rightarrow> jsobject list \<Rightarrow> parent_component \<Rightarrow> world \<Rightarrow> parent_component \<times> world" where
  "run_handlers ext [] inst w = (inst, w)"
| "run_handlers ext (ps # rest) inst w =
     (case updateProps_then ext ps inst w of (inst', w') \<Rightarrow> run_handlers ext rest inst' w')"

definition onInit_resolve ::
  "externals \<Rightarrow> parent_component \<Rightarrow> world \<Rightarrow> parent_component \<times> world" where
  "onInit_resolve ext inst w =
     (case settled (onInit inst) of
        Pending \<Rightarrow>
          run_handlers ext (handlers (onInit inst))
            (inst\<lparr>onInit := \<lparr>settled = Resolved, handlers = []\<rparr>\<rparr>) w
      | _ \<Rightarrow> (inst, w))"


subsection \<open>Callbacks, destroy, error and close\<close>

text \<open>\<^verbatim>\<open>this.props.onClose()\<close> and its like: calling a prop that is not a function
  throws a TypeError. The callback is the user's code; the model records the call
  and takes the callback to return.\<close>

definition call_callback ::
  "string \<Rightarrow> error option \<Rightarrow> parent_component \<Rightarrow> world \<Rightarrow> error + world" where
  "call_callback name arg inst w =
     (case getprop (props inst) name of
        VFun f \<Rightarrow> Inr (emit (Callback name f arg) w)
      | _ \<Rightarrow> Inl TypeError)"

definition destroy :: "parent_component \<Rightarrow> world \<Rightarrow> parent_component \<times> world" where
  "destroy inst w = cleanup inst w"

text \<open>\<^verbatim>\<open>error(err)\<close>: \<^verbatim>\<open>this.props.onError(err); this.destroy();\<close>\<close>

definition error :: "error \<Rightarrow> step" where
  "error err inst w =
     (case call_callback ''onError'' (Some err) inst w of
        Inl e \<Rightarrow> (Some e, inst, w)
      | Inr w' \<Rightarrow> (case destroy inst w' of (inst', w'') \<Rightarrow> (None, inst', w'')))"

text \<open>\<^verbatim>\<open>close()\<close>. The argument \<open>delivery\<close> is how the promise of
  \<^verbatim>\<open>postRobot.send(this.window, POST_MESSAGE.CLOSE)\<close> settles: \<open>None\<close> when it resolves,
  the error when it rejects. The \<^verbatim>\<open>catch\<close> handler logs the warning and returns, so
  the \<^verbatim>\<open>then\<close> handler runs in both cases and the promise \<^verbatim>\<open>close\<close> returns resolves.
  The result is the exception thrown before a promise is returned, or the state of
  the promise returned.\<close>

definition close ::
  "error option \<Rightarrow> parent_component \<Rightarrow> world \<Rightarrow> (error + promise_state) \<times> parent_component \<times> world" where
  "close delivery inst w =
     (case call_callback ''onClose'' None inst w of
        Inl e \<Rightarrow> (Inl e, inst, w)
      | Inr w1 \<Rightarrow>
          (let w2 = emit (Sent (window inst) CLOSE) w1;
               w3 = (case delivery of None \<Rightarrow> w2 | Some err \<Rightarrow> emit (Warned err) w2)
           in case destroy inst w3 of (inst', w4) \<Rightarrow> (Inr Resolved, inst', w4)))"

subsection \<open>The init timeout\<close>

text \<open>\<^verbatim>\<open>runTimeout()\<close> sets a timer when \<^verbatim>\<open>this.props.timeout\<close> is truthy. The timer is
  kept with the page until it runs; nothing in the file clears it.\<close>

definition runTimeout :: "parent_component \<Rightarrow> world \<Rightarrow> world" where
  "runTimeout inst w =
     (if truthy (getprop (props inst) ''timeout'')
      then w\<lparr>timers := timers w @ [(uid inst, getprop (props inst) ''timeout'')]\<rparr>
      else w)"




subsection \<open>Rendering\<close>

text \<open>\<^verbatim>\<open>getRenderContext(el)\<close>\<close>

definition getRenderContext :: "nat option \<Rightarrow> parent_component \<Rightarrow> error + context_type" where
  "getRenderContext el inst =
     (if el \<noteq> None then
        (if Iframe \<notin> set (contexts (component inst))
         then Inl (IframeNotAllowed (tag (component inst)))
         else Inr Iframe)
      else if defaultContext (component inst) \<noteq> None
              \<and> defaultContext (component inst) = Some Lightbox then Inr Lightbox
      else if defaultContext (component inst) \<noteq> None
              \<and> defaultContext (component inst) = Some Popup then Inr Popup
      else if Lightbox \<in> set (contexts (component inst)) then Inr Lightbox
      else if Popup \<in> set (contexts (component inst)) then Inr Popup
      else Inl (NoContextAvailable (tag (component inst))))"

text \<open>\<^verbatim>\<open>validateRender(context)\<close>\<close>

definition validateRender :: "context_type option \<Rightarrow> parent_component \<Rightarrow> error option" where
  "validateRender ctx inst =
     (if window inst \<noteq> None then Some (AlreadyRendered (tag (component inst)))
      else case ctx of
             None \<Rightarrow> None
           | Some c \<Rightarrow>
               if c \<notin> set (contexts (component inst)) then Some (InvalidContext c) else None)"

text \<open>\<^verbatim>\<open>watchForClose()\<close>: two listeners, and one cleanup task that cancels both.\<close>

definition watchForClose :: "parent_component \<Rightarrow> world \<Rightarrow> parent_component \<times> world" where
  "watchForClose inst w =
     (case fresh w of
        (a, w1) \<Rightarrow>
          (case fresh w1 of
             (b, w2) \<Rightarrow>
               (registerForCleanup (CancelWatchers a b) inst,
                w2\<lparr>listeners := listeners w2 @
                      [(a, CloseWatcher, uid inst), (b, UnloadWatcher, uid inst)]\<rparr>)))"

text \<open>\<^verbatim>\<open>createComponentTemplate()\<close> writes into \<^verbatim>\<open>this.window.document.body\<close>.\<close>

definition createComponentTemplate :: step where
  "createComponentTemplate inst w =
     (case window inst of
        None \<Rightarrow> (Some TypeError, inst, w)
      | Some h \<Rightarrow> (None, inst, emit (ComponentTemplate (Some h)) w))"

text \<open>\<^verbatim>\<open>createParentStyle()\<close> and \<^verbatim>\<open>createOverlayTemplate()\<close>. Both assign
  \<^verbatim>\<open>this.overlayStyle\<close>; only the second registers a cleanup task, which removes the
  nodes the two fields hold when it runs.\<close>

definition createParentStyle :: "parent_component \<Rightarrow> world \<Rightarrow> parent_component \<times> world" where
  "createParentStyle inst w =
     (case fresh w of
        (s, w') \<Rightarrow> (inst\<lparr>overlayStyle := Some s\<rparr>, w'\<lparr>body_nodes := body_nodes w' @ [(s, ParentStyle)]\<rparr>))"

definition createOverlayTemplate :: "parent_component \<Rightarrow> world \<Rightarrow> parent_component \<times> world" where
  "createOverlayTemplate inst w =
     (case fresh w of
        (ov, w1) \<Rightarrow>
          (case fresh w1 of
             (s, w2) \<Rightarrow>
               (registerForCleanup RemoveOverlay (inst\<lparr>overlay := Some ov, overlayStyle := Some s\<rparr>),
                w2\<lparr>body_nodes := body_nodes w2 @ [(ov, OverlayElement), (s, OverlayStyle)]\<rparr>)))"

text \<open>\<^verbatim>\<open>open(element, context)\<close> and \<^verbatim>\<open>loadUrl(url)\<close>; the latter reads the driver of
  \<^verbatim>\<open>this.context\<close>.\<close>

definition open_surface :: "(context_type \<Rightarrow> driver) \<Rightarrow> nat option \<Rightarrow> context_type \<Rightarrow> step" where
  "open_surface drivers element c inst w =
     and_then (drv_open (drivers c) element inst w)
       (\<lambda>inst1 w1. case watchForClose inst1 w1 of
                      (inst2, w2) \<Rightarrow> createComponentTemplate inst2 w2)"

definition loadUrl :: "(context_type \<Rightarrow> driver) \<Rightarrow> jsval \<Rightarrow> step" where
  "loadUrl drivers u inst w =
     (case render_context inst of
        None \<Rightarrow> (Some TypeError, inst, w)
      | Some c \<Rightarrow> drv_loadUrl (drivers c) u inst w)"

text \<open>\<^verbatim>\<open>render(element, context)\<close>. \<open>render_in\<close> is the body of \<^verbatim>\<open>render\<close> from the
  driver's \<^verbatim>\<open>render\<close> hook on, with the context resolved.\<close>

definition render_in :: "(context_type \<Rightarrow> driver) \<Rightarrow> nat option \<Rightarrow> context_type \<Rightarrow> step" where
  "render_in drivers element c inst w =
     and_then (case drv_render (drivers c) of
                 None \<Rightarrow> (None, inst, w)
               | Some hook \<Rightarrow> hook element inst w)
       (\<lambda>inst1 w1.
          and_then (open_surface drivers element c (setForCleanup_context c inst1) w1)
            (\<lambda>inst2 w2.
               case listen inst2 w2 of
                 (inst3, w3) \<Rightarrow>
                   and_then (loadUrl drivers (url inst3) inst3 w3)
                     (\<lambda>inst4 w4.
                        case (if drv_overlay (drivers c)
                              then createOverlayTemplate inst4 (runTimeout inst4 w4)
                              else (inst4, runTimeout inst4 w4)) of
                          (inst5, w5) \<Rightarrow>
                            (case watchForClose inst5 w5 of
                               (inst6, w6) \<Rightarrow> (None, inst6, w6)))))"

definition render ::
  "(context_type \<Rightarrow> driver) \<Rightarrow> nat option \<Rightarrow> context_type option \<Rightarrow> step" where
  "render drivers element ctx inst w =
     (case validateRender ctx inst of
        Some e \<Rightarrow> (Some e, inst, w)
      | None \<Rightarrow>
          (case (case ctx of Some c \<Rightarrow> Inr c | None \<Rightarrow> getRenderContext element inst) of
             Inl e \<Rightarrow> (Some e, inst, w)
           | Inr c \<Rightarrow> render_in drivers element c inst w))"

subsection \<open>Messages from the child\<close>

text \<open>The handlers of \<^verbatim>\<open>listeners()\<close> for \<^verbatim>\<open>INIT\<close>, \<^verbatim>\<open>CLOSE\<close> and \<^verbatim>\<open>ERROR\<close>. \<^verbatim>\<open>INIT\<close>
  replies with the context and the props.\<close>

definition on_INIT ::
  "externals \<Rightarrow> parent_component \<Rightarrow> world \<Rightarrow>
     (error + context_type option \<times> jsobject) \<times> parent_component \<times> world" where
  "on_INIT ext inst w =
     (case call_callback ''onEnter'' None inst w of
        Inl e \<Rightarrow> (Inl e, inst, w)
      | Inr w1 \<Rightarrow>
          (case onInit_resolve ext inst w1 of
             (inst', w2) \<Rightarrow> (Inr (render_context inst', props inst'), inst', w2)))"

definition on_CLOSE ::
  "error option \<Rightarrow> parent_component \<Rightarrow> world \<Rightarrow> (error + promise_state) \<times> parent_component \<times> world" where
  "on_CLOSE delivery inst w = close delivery inst w"


subsection \<open>The constructor\<close>

text \<open>\<^verbatim>\<open>new ParentComponent(component, options)\<close>, from \<^verbatim>\<open>this.id = uniqueID()\<close> on. The
  instance is pushed on \<^verbatim>\<open>activeComponents\<close> before \<^verbatim>\<open>setProps\<close> can throw. The init
  promise, created last, is pending from the start in the model: nothing reads it in
  between.\<close>

definition construct ::
  "externals \<Rightarrow> component \<Rightarrow> options \<Rightarrow> world \<Rightarrow> (error + parent_component) \<times> world" where
  "construct ext cmpt opts w =
     (case fresh w of
        (i, w1) \<Rightarrow>
          if singleton cmpt \<and> ident cmpt \<in> snd ` set (activeComponents w1)
          then (Inl (SingletonError (tag cmpt)), w1)
          else
            (let w2 = w1\<lparr>activeComponents := activeComponents w1 @ [(i, ident cmpt)]\<rparr>;
                 inst0 = registerForCleanup RemoveActive
                           \<lparr>component = cmpt, uid = i, props = [], url = VUndefined,
                            window = None, render_context = None, overlay = None,
                            overlayStyle = None, cleanupTasks = [],
                            onInit = \<lparr>settled = Pending, handlers = []\<rparr>\<rparr>
             in case setProps ext (case opt_props opts of None \<Rightarrow> [] | Some ps \<Rightarrow> ps) inst0 of
                  (Some e, inst1) \<Rightarrow> (Inl e, w2)
                | (None, inst1) \<Rightarrow>
                    (case createParentStyle inst1 w2 of (inst2, w3) \<Rightarrow> (Inr inst2, w3))))"

subsection \<open>Released resources\<close>




subsection \<open>Type-correct props\<close>




subsection \<open>Singletons\<close>




section \<open>Sample data\<close>

text \<open>A reversible stand-in for \<^verbatim>\<open>urlEncode\<close> and a plain stand-in for
  \<^verbatim>\<open>stringifyWithFunctions\<close>, a demo component with the callbacks declared as no-op
  function props, and the states a run reaches: constructed, then rendered as a
  lightbox.\<close>

definition sample_urlEncode :: "string \<Rightarrow> string" where
  "sample_urlEncode s =
     concat (map (\<lambda>c. if c = CHR ''?'' then ''%3F'' else if c = CHR ''&'' then ''%26'' else [c]) s)"

fun sample_show :: "jsval \<Rightarrow> string" where
  "sample_show (VStr s) = s"
| "sample_show (VNum n) = number_toString n"
| "sample_show (VBool b) = (if b then ''true'' else ''false'')"
| "sample_show (VObj obj) = JSON_stringify (JObject obj)"
| "sample_show (VFun f) = ''function''"
| "sample_show v = []"

definition sample_stringify :: "jsobject \<Rightarrow> string" where
  "sample_stringify ps = concat (map (\<lambda>kv. fst kv @ '':'' @ sample_show (snd kv) @ '';'') ps)"

definition sample_ext :: externals where
  "sample_ext =
     \<lparr>urlEncode = sample_urlEncode, stringifyWithFunctions = sample_stringify,
      call_def = (\<lambda>f. VUndefined)\<rparr>"

definition decl :: "prop_type \<Rightarrow> prop_decl" where
  "decl t = \<lparr>prop_type = t, prop_def = VUndefined, prop_noop = (t = TFunction),
             prop_denodeify = False, prop_once = False, prop_memoize = False\<rparr>"

definition sample_component :: component where
  "sample_component =
     \<lparr>ident = 7, tag = ''demo'', component_url = Some ''https://x.example/'',
      envUrls = [(''prod'', ''https://x.example/run''), (''dev'', ''https://dev.x.example/run'')],
      contexts = [Iframe, Lightbox], defaultContext = None,
      component_props =
        [(''env'', decl TString), (''timeout'', decl TNumber), (''onEnter'', decl TFunction),
         (''onClose'', decl TFunction), (''onError'', decl TFunction),
         (''onTimeout'', decl TFunction)],
      singleton = True\<rparr>"

definition empty_world :: world where
  "empty_world =
     \<lparr>activeComponents = [], next_id = 0, listeners = [], body_nodes = [], surfaces = [],
      timers = [], trace = []\<rparr>"


definition sample_props :: jsobject where
  "sample_props =
     [(''env'', VStr ''prod''), (''timeout'', VNum 5000), (''onEnter'', VFun Noop),
      (''onClose'', VFun Noop), (''onError'', VFun Noop), (''onTimeout'', VFun Noop)]"

definition sample_instance :: parent_component where
  "sample_instance =
     \<lparr>component = sample_component, uid = 0, props = sample_props,
      url = VStr ''https://x.example/run?env=prod&timeout=5000'',
      window = None, render_context = None, overlay = None, overlayStyle = Some 1,
      cleanupTasks = [RemoveActive], onInit = \<lparr>settled = Pending, handlers = []\<rparr>\<rparr>"

definition sample_world :: world where
  "sample_world =
     \<lparr>activeComponents = [(0, 7)], next_id = 2, listeners = [], body_nodes = [(1, ParentStyle)],
      surfaces = [], timers = [], trace = []\<rparr>"

definition rendered_instance :: parent_component where
  "rendered_instance =
     sample_instance
       \<lparr>window := Some 2, render_context := Some Lightbox, overlay := Some 6,
        overlayStyle := Some 7,
        cleanupTasks :=
          [RemoveActive, DeleteField FContext, DeleteField FWindow, CloseSurface 2,
           CancelWatchers 3 4, CancelMessageListener 5, RemoveOverlay, CancelWatchers 8 9]\<rparr>"

definition rendered_world :: world where
  "rendered_world =
     \<lparr>activeComponents = [(0, 7)], next_id = 10,
      listeners =
        [(3, CloseWatcher, 0), (4, UnloadWatcher, 0), (5, MessageListener, 0),
         (8, CloseWatcher, 0), (9, UnloadWatcher, 0)],
      body_nodes = [(1, ParentStyle), (6, OverlayElement), (7, OverlayStyle)],
      surfaces = [(2, Lightbox)], timers = [(0, VNum 5000)],
      trace =
        [ComponentTemplate (Some 2),
         LoadedUrl (Some 2) (VStr ''https://x.example/run?env=prod&timeout=5000'')]\<rparr>"



text \<open>The component of the example scenario: contexts iframe and lightbox, the
  environment \<^verbatim>\<open>prod\<close> mapped to a url, one string prop \<^verbatim>\<open>env\<close>; and an instance of a
  component that declares iframe as its default context.\<close>

definition example_component :: component where
  "example_component =
     \<lparr>ident = 10, tag = ''example'', component_url = None,
      envUrls = [(''prod'', ''https://x.example/run'')],
      contexts = [Iframe, Lightbox], defaultContext = None,
      component_props = [(''env'', decl TString)], singleton = False\<rparr>"

definition example_options :: options where
  "example_options = \<lparr>opt_props = Some [(''env'', VStr ''prod'')]\<rparr>"

definition iframe_default_instance :: parent_component where
  "iframe_default_instance =
     \<lparr>component = example_component\<lparr>defaultContext := Some Iframe\<rparr>, uid = 0,
      props = [(''env'', VStr ''prod'')], url = VStr ''https://x.example/run?env=prod'',
      window = None, render_context = None, overlay = None, overlayStyle = Some 1,
      cleanupTasks = [RemoveActive], onInit = \<lparr>settled = Pending, handlers = []\<rparr>\<rparr>"

text \<open>The run goes on: the child sends \<^verbatim>\<open>INIT\<close>, which resolves the init future, and the
  instance is closed.\<close>

definition active_instance :: parent_component where
  "active_instance = rendered_instance\<lparr>onInit := \<lparr>settled = Resolved, handlers = []\<rparr>\<rparr>"

definition active_world :: world where
  "active_world = emit (Callback ''onEnter'' Noop None) rendered_world"

definition closed_instance :: parent_component where
  "closed_instance =
     active_instance\<lparr>window := None, render_context := None, cleanupTasks := []\<rparr>"

definition closed_world :: world where
  "closed_world =
     \<lparr>activeComponents = [], next_id = 10, listeners = [], body_nodes = [(1, ParentStyle)],
      surfaces = [], timers = [(0, VNum 5000)],
      trace =
        [ComponentTemplate (Some 2),
         LoadedUrl (Some 2) (VStr ''https://x.example/run?env=prod&timeout=5000''),
         Callback ''onEnter'' Noop None, Callback ''onClose'' Noop None, Sent (Some 2) CLOSE,
         CleanedUp 0 RemoveActive, CleanedUp 0 (DeleteField FContext),
         CleanedUp 0 (DeleteField FWindow), CleanedUp 0 (CloseSurface 2),
         CleanedUp 0 (CancelWatchers 3 4), CleanedUp 0 (CancelMessageListener 5),
         CleanedUp 0 RemoveOverlay, CleanedUp 0 (CancelWatchers 8 9)]\<rparr>"

section \<open>The sample run\<close>


lemma sample_render:
  "render RENDER_DRIVERS None None sample_instance sample_world =
     (None, rendered_instance, rendered_world)"
  by code_simp

section \<open>Teardown\<close>

















section \<open>Normalization\<close>

text \<open>The loop of \<^verbatim>\<open>normalizeProps\<close> leaves under every declared key what
  \<^verbatim>\<open>normalizeProp\<close> returns for it, and nothing else.\<close>

lemma map_of_setprop: "map_of (setprop obj k v) = (map_of obj)(k \<mapsto> v)"
  by (induction obj k v rule: setprop.induct) (auto simp: fun_eq_iff)



lemma getprop_setprop: "getprop (setprop obj k v) k' = (if k' = k then v else getprop obj k')"
  by (simp add: getprop_def map_of_setprop)











lemma not_hasProp_absent: "\<not> hasOwnProperty ps k \<Longrightarrow> getprop ps k = VUndefined"
  by (auto simp: hasOwnProperty_def getprop_def)

lemma parseInt_idem: "parseInt v = VNum n \<Longrightarrow> parseInt (if truthy (VNum n) then VNum n else VNum 0) = VNum n"
  by auto



















section \<open>Construction and the active list\<close>









section \<open>Claims\<close>

text \<open>
  C2. Calling \<^verbatim>\<open>render\<close> on an instance that is already rendered (\<^verbatim>\<open>this.window\<close> is
  set), or with an explicit context that is not among the allowed contexts of the
  component, throws at once, whatever the element, the drivers and the page: the
  error is of the ConfigurationError kind, and the instance and the page are
  unchanged (no surface opened, nothing registered).
\<close>

theorem render_rejects_before_opening:
  assumes "window inst \<noteq> None \<or> (ctx = Some c \<and> c \<notin> set (contexts (component inst)))"
  shows "\<exists>e. render drivers element ctx inst w = (Some e, inst, w)
             \<and> kind_of e = ConfigurationError
             \<and> (window inst \<noteq> None \<longrightarrow> e = AlreadyRendered (tag (component inst)))
             \<and> (window inst = None \<longrightarrow> e = InvalidContext c)"
  using assms by (auto simp: render_def validateRender_def)

theorem render_rejects_before_opening_witness:
  "window rendered_instance \<noteq> None
   \<and> render RENDER_DRIVERS (Some 100) (Some Popup) rendered_instance rendered_world =
       (Some (AlreadyRendered ''demo''), rendered_instance, rendered_world)
   \<and> Popup \<notin> set (contexts (component sample_instance))
   \<and> render RENDER_DRIVERS None (Some Popup) sample_instance sample_world =
       (Some (InvalidContext Popup), sample_instance, sample_world)"
proof -
  have h1: "window rendered_instance \<noteq> None"
    by (simp add: rendered_instance_def)
  have h2: "Popup \<notin> set (contexts (component sample_instance))"
    by (simp add: sample_instance_def sample_component_def)
  have h3: "window sample_instance = None"
    by (simp add: sample_instance_def)
  have t: "tag (component rendered_instance) = ''demo''"
    by (simp add: rendered_instance_def sample_instance_def sample_component_def)
  from render_rejects_before_opening [of rendered_instance "Some Popup" Popup RENDER_DRIVERS "Some 100" rendered_world] h1 t
  have a: "render RENDER_DRIVERS (Some 100) (Some Popup) rendered_instance rendered_world =
       (Some (AlreadyRendered ''demo''), rendered_instance, rendered_world)"
    by auto
  from render_rejects_before_opening [of sample_instance "Some Popup" Popup RENDER_DRIVERS None sample_world] h2 h3
  have b: "render RENDER_DRIVERS None (Some Popup) sample_instance sample_world =
       (Some (InvalidContext Popup), sample_instance, sample_world)"
    by auto
  from h1 h2 a b show ?thesis by simp
qed













text \<open>
  C3. As stated, the claim fails: a declared default context is used only when it is
  lightbox or popup. For a component that allows iframe and lightbox and declares
  iframe as its default, \<^verbatim>\<open>getRenderContext\<close> without a target element returns
  lightbox.
\<close>

theorem default_iframe_is_not_used:
  "defaultContext (component iframe_default_instance) = Some Iframe
   \<and> getRenderContext None iframe_default_instance = Inr Lightbox"
  by (simp add: iframe_default_instance_def example_component_def getRenderContext_def)

text \<open>
  C3, amended. A \<^verbatim>\<open>render\<close> call with no explicit context on an instance that is not
  rendered continues with the context \<^verbatim>\<open>getRenderContext\<close> returns, or throws its
  error. The context is resolved by this priority: a target element forces iframe
  (a ConfigurationError if iframe is not allowed); otherwise the declared default
  context is used if it is lightbox or popup; otherwise lightbox if allowed;
  otherwise popup if allowed; otherwise a ConfigurationError is thrown. For the
  example component (iframe and lightbox allowed, \<^verbatim>\<open>prod\<close> mapped to
  \<^verbatim>\<open>https://x.example/run\<close>, prop \<^verbatim>\<open>env\<close> = \<^verbatim>\<open>"prod"\<close>) and a \<^verbatim>\<open>urlEncode\<close> that leaves
  \<^verbatim>\<open>env\<close> and \<^verbatim>\<open>prod\<close> as they are, the constructor builds the url
  \<^verbatim>\<open>https://x.example/run?env=prod\<close>, and \<^verbatim>\<open>render\<close> with a target element and no context
  renders in the iframe context.
\<close>

theorem render_context_resolution:
  "(window inst = None \<longrightarrow>
      render drivers el None inst w =
        (case getRenderContext el inst of
           Inl e \<Rightarrow> (Some e, inst, w)
         | Inr c \<Rightarrow> render_in drivers el c inst w))
   \<and> (el \<noteq> None \<longrightarrow>
        getRenderContext el inst =
          (if Iframe \<in> set (contexts (component inst)) then Inr Iframe
           else Inl (IframeNotAllowed (tag (component inst)))))
   \<and> (el = None \<and> defaultContext (component inst) = Some c \<and> c \<noteq> Iframe \<longrightarrow>
        getRenderContext el inst = Inr c)
   \<and> (el = None \<and> (defaultContext (component inst) = None
                     \<or> defaultContext (component inst) = Some Iframe) \<longrightarrow>
        getRenderContext el inst =
          (if Lightbox \<in> set (contexts (component inst)) then Inr Lightbox
           else if Popup \<in> set (contexts (component inst)) then Inr Popup
           else Inl (NoContextAvailable (tag (component inst)))))
   \<and> kind_of (IframeNotAllowed (tag (component inst))) = ConfigurationError
   \<and> kind_of (NoContextAvailable (tag (component inst))) = ConfigurationError
   \<and> (urlEncode ext ''env'' = ''env'' \<and> urlEncode ext ''prod'' = ''prod'' \<longrightarrow>
        (\<exists>inst0 w0. construct ext example_component example_options w = (Inr inst0, w0)
            \<and> url inst0 = VStr ''https://x.example/run?env=prod''
            \<and> getRenderContext (Some target) inst0 = Inr Iframe
            \<and> render drivers (Some target) None inst0 w0 =
                 render_in drivers (Some target) Iframe inst0 w0))"
proof -
  have r: "render drivers el None inst w =
        (case getRenderContext el inst of
           Inl e \<Rightarrow> (Some e, inst, w)
         | Inr c \<Rightarrow> render_in drivers el c inst w)" if "window inst = None"
    using that by (simp add: render_def validateRender_def)
  have a: "getRenderContext el inst =
          (if Iframe \<in> set (contexts (component inst)) then Inr Iframe
           else Inl (IframeNotAllowed (tag (component inst))))" if "el \<noteq> None"
    using that by (simp add: getRenderContext_def)
  have b: "getRenderContext el inst = Inr c"
    if "el = None \<and> defaultContext (component inst) = Some c \<and> c \<noteq> Iframe"
    using that by (cases c) (simp_all add: getRenderContext_def)
  have c: "getRenderContext el inst =
          (if Lightbox \<in> set (contexts (component inst)) then Inr Lightbox
           else if Popup \<in> set (contexts (component inst)) then Inr Popup
           else Inl (NoContextAvailable (tag (component inst))))"
    if "el = None \<and> (defaultContext (component inst) = None
                     \<or> defaultContext (component inst) = Some Iframe)"
    using that by (auto simp: getRenderContext_def)
  have ex: "\<exists>inst0 w0. construct ext example_component example_options w = (Inr inst0, w0)
            \<and> url inst0 = VStr ''https://x.example/run?env=prod''
            \<and> getRenderContext (Some target) inst0 = Inr Iframe
            \<and> render drivers (Some target) None inst0 w0 =
                 render_in drivers (Some target) Iframe inst0 w0"
    if e: "urlEncode ext ''env'' = ''env'' \<and> urlEncode ext ''prod'' = ''prod''"
  proof -
    have v: "validateProps example_component [(''env'', VStr ''prod'')] = Inr ()"
      by (simp add: validateProps_def prop_ok_def example_component_def decl_def)
    have n: "normalizeProps ext example_component (Some [(''env'', VStr ''prod'')]) =
        Inr [(''env'', VStr ''prod'')]"
      by (simp add: normalizeProps_def Object_keys_def example_component_def decl_def
          normalizeProp_def hasProp_def hasOwnProperty_def getprop_def)
    have q: "propsToQuery ext [(''env'', VStr ''prod'')] = ''env=prod''"
      using e by (simp add: propsToQuery_def Object_keys_def query_entry_def getprop_def
          filter_Boolean_def)
    have u: "buildUrl ext example_component [(''env'', VStr ''prod'')] =
        Inr (VStr ''https://x.example/run?env=prod'')"
      by (simp add: buildUrl_def q) (simp add: getprop_def envUrl_def example_component_def)
    have sp: "setProps ext [(''env'', VStr ''prod'')] i =
        (None, i\<lparr>props := [(''env'', VStr ''prod'')], url := VStr ''https://x.example/run?env=prod''\<rparr>)"
      if "component i = example_component" for i
      using that v n u by (simp add: setProps_def)
    have cx: "Iframe \<in> set (contexts example_component)"
      by (simp add: example_component_def)
    have sg: "\<not> singleton example_component"
      by (simp add: example_component_def)
    show ?thesis
      by (simp add: construct_def fresh_def example_options_def sp sg registerForCleanup_def
          createParentStyle_def Let_def render_def validateRender_def getRenderContext_def cx)
  qed
  from r a b c ex show ?thesis by simp
qed

theorem render_context_resolution_witness:
  "urlEncode sample_ext ''env'' = ''env'' \<and> urlEncode sample_ext ''prod'' = ''prod''
   \<and> (\<exists>inst0 w0. construct sample_ext example_component example_options empty_world = (Inr inst0, w0)
        \<and> url inst0 = VStr ''https://x.example/run?env=prod''
        \<and> getRenderContext (Some 100) inst0 = Inr Iframe
        \<and> render RENDER_DRIVERS (Some 100) None inst0 w0 =
             render_in RENDER_DRIVERS (Some 100) Iframe inst0 w0)
   \<and> defaultContext (component sample_instance) = None
   \<and> getRenderContext None sample_instance = Inr Lightbox
   \<and> getRenderContext None (sample_instance\<lparr>component := example_component\<lparr>contexts := [Iframe]\<rparr>\<rparr>) =
       Inl (NoContextAvailable ''example'')
   \<and> getRenderContext (Some 100)
        (sample_instance\<lparr>component := example_component\<lparr>contexts := [Lightbox]\<rparr>\<rparr>) =
       Inl (IframeNotAllowed ''example'')"
proof -
  let ?i1 = "sample_instance\<lparr>component := example_component\<lparr>contexts := [Iframe]\<rparr>\<rparr>"
  let ?i2 = "sample_instance\<lparr>component := example_component\<lparr>contexts := [Lightbox]\<rparr>\<rparr>"
  have e: "urlEncode sample_ext ''env'' = ''env'' \<and> urlEncode sample_ext ''prod'' = ''prod''"
    by (simp add: sample_ext_def sample_urlEncode_def)
  have d: "defaultContext (component sample_instance) = None"
    by (simp add: sample_instance_def sample_component_def)
  have d1: "defaultContext (component ?i1) = None" and d2: "(Some (100::nat)) \<noteq> None"
    by (simp_all add: example_component_def)
  from render_context_resolution [where inst = sample_instance and drivers = RENDER_DRIVERS
      and el = None and w = empty_world and ext = sample_ext and target = 100] e d
  have a: "\<exists>inst0 w0. construct sample_ext example_component example_options empty_world = (Inr inst0, w0)
        \<and> url inst0 = VStr ''https://x.example/run?env=prod''
        \<and> getRenderContext (Some 100) inst0 = Inr Iframe
        \<and> render RENDER_DRIVERS (Some 100) None inst0 w0 =
             render_in RENDER_DRIVERS (Some 100) Iframe inst0 w0"
    and b: "getRenderContext None sample_instance = Inr Lightbox"
    by (simp_all add: sample_instance_def sample_component_def)
  from render_context_resolution [where inst = ?i1 and el = None] d1
  have c: "getRenderContext None ?i1 = Inl (NoContextAvailable ''example'')"
    by (simp add: example_component_def)
  from render_context_resolution [where inst = ?i2 and el = "Some 100"] d2
  have f: "getRenderContext (Some 100) ?i2 = Inl (IframeNotAllowed ''example'')"
    by (simp add: example_component_def)
  from e a d b c f show ?thesis by blast
qed



end
